theory Spec2Isabelle
  imports Complex_Main
begin

section \<open>Values and exceptions\<close>

text \<open>
  The backend of \<^verbatim>\<open>src/agri/backend/app.py\<close> only handles values that come out of a
  JSON parser (the request body, the body of the service's response) or that it writes as
  dictionary and list literals (the payloads). One datatype covers them. An object is an
  association list read by \<open>map_of\<close>: the first binding of a key is the dictionary's entry.
  The float literals \<^verbatim>\<open>0.2\<close> and \<^verbatim>\<open>0.7\<close> are kept as the exact rationals they denote;
  the program never computes with them.
\<close>

datatype json =
    JNull
  | JBool bool
  | JNum rat
  | JStr string
  | JArr "json list"
  | JObj "(string \<times> json) list"

text \<open>The exceptions that the operations of the program can raise.\<close>

datatype py_error = KeyError | IndexError | TypeError | AttributeError

text \<open>Sequencing of computations that may raise: the first exception wins.\<close>

definition and_then :: "py_error + 'a \<Rightarrow> ('a \<Rightarrow> py_error + 'b) \<Rightarrow> py_error + 'b" where
  "and_then r f = (case r of Inl e \<Rightarrow> Inl e | Inr v \<Rightarrow> f v)"

section \<open>The Python operations the program applies to parsed values\<close>

text \<open>\<^verbatim>\<open>k in s\<close> on two strings: \<open>k\<close> occurs in \<open>s\<close> as a contiguous piece.\<close>

fun py_substring :: "string \<Rightarrow> string \<Rightarrow> bool" where
  "py_substring k [] = (k = [])"
| "py_substring k (c # cs) = (take (length k) (c # cs) = k \<or> py_substring k cs)"

text \<open>
  \<^verbatim>\<open>k in v\<close> for a string \<open>k\<close>: key membership on a dictionary, element membership on a
  list, substring test on a string, \<^verbatim>\<open>TypeError\<close> on everything else.
\<close>

fun py_in :: "string \<Rightarrow> json \<Rightarrow> py_error + bool" where
  "py_in k (JObj kvs) = Inr (map_of kvs k \<noteq> None)"
| "py_in k (JArr xs) = Inr (List.member xs (JStr k))"
| "py_in k (JStr s) = Inr (py_substring k s)"
| "py_in k _ = Inl TypeError"

text \<open>\<^verbatim>\<open>len(v)\<close>.\<close>

fun py_len :: "json \<Rightarrow> py_error + nat" where
  "py_len (JObj kvs) = Inr (length (remdups (map fst kvs)))"
| "py_len (JArr xs) = Inr (length xs)"
| "py_len (JStr s) = Inr (length s)"
| "py_len _ = Inl TypeError"

text \<open>\<^verbatim>\<open>v[k]\<close> with a string key.\<close>

fun getitem_key :: "json \<Rightarrow> string \<Rightarrow> py_error + json" where
  "getitem_key (JObj kvs) k = (case map_of kvs k of None \<Rightarrow> Inl KeyError | Some v \<Rightarrow> Inr v)"
| "getitem_key _ k = Inl TypeError"

text \<open>
  \<^verbatim>\<open>v[i]\<close> with a non-negative integer index. A dictionary parsed from JSON has string
  keys only, so an integer is never one of its keys.
\<close>

fun getitem_index :: "json \<Rightarrow> nat \<Rightarrow> py_error + json" where
  "getitem_index (JArr xs) i = (if i < length xs then Inr (xs ! i) else Inl IndexError)"
| "getitem_index (JStr s) i = (if i < length s then Inr (JStr [s ! i]) else Inl IndexError)"
| "getitem_index (JObj kvs) i = Inl KeyError"
| "getitem_index _ i = Inl TypeError"

text \<open>Truth value of a value in a condition.\<close>

fun py_truthy :: "json \<Rightarrow> bool" where
  "py_truthy JNull = False"
| "py_truthy (JBool b) = b"
| "py_truthy (JNum n) = (n \<noteq> 0)"
| "py_truthy (JStr s) = (s \<noteq> [])"
| "py_truthy (JArr xs) = (xs \<noteq> [])"
| "py_truthy (JObj kvs) = (kvs \<noteq> [])"

text \<open>\<^verbatim>\<open>d.get(k, default)\<close>: only a dictionary has the method.\<close>

fun dict_get :: "json \<Rightarrow> string \<Rightarrow> json \<Rightarrow> py_error + json" where
  "dict_get (JObj kvs) k d = Inr (case map_of kvs k of None \<Rightarrow> d | Some v \<Rightarrow> v)"
| "dict_get _ k d = Inl AttributeError"

text \<open>\<^verbatim>\<open>s.split(c)\<close> on the characters of a string: every occurrence of \<open>c\<close> separates.\<close>

fun py_split :: "char \<Rightarrow> string \<Rightarrow> string list" where
  "py_split c [] = [[]]"
| "py_split c (x # xs) =
     (if x = c then [] # py_split c xs
      else (case py_split c xs of [] \<Rightarrow> [[x]] | w # ws \<Rightarrow> (x # w) # ws))"

text \<open>\<^verbatim>\<open>v.split(',')\<close>: only a string has the method.\<close>

fun str_split :: "json \<Rightarrow> py_error + string list" where
  "str_split (JStr s) = Inr (py_split (CHR '','') s)"
| "str_split _ = Inl AttributeError"

text \<open>\<^verbatim>\<open>xs[i]\<close> on the list of pieces.\<close>

definition piece :: "string list \<Rightarrow> nat \<Rightarrow> py_error + string" where
  "piece ws i = (if i < length ws then Inr (ws ! i) else Inl IndexError)"

section \<open>The service and the observable effects\<close>

text \<open>
  One attempt is \<^verbatim>\<open>requests.post\<close>, \<^verbatim>\<open>raise_for_status\<close> and \<^verbatim>\<open>response.json()\<close>.
  It either raises a \<^verbatim>\<open>RequestException\<close> (connection error, timeout, bad status; the
  current library also raises one for a body that is not JSON), with its text, or yields
  the parsed body. The service is any function from the payload and the number of the
  attempt (from 0) to such an outcome.
\<close>

datatype outcome = TransportFailure string | Body json

type_synonym service = "json \<Rightarrow> nat \<Rightarrow> outcome"

text \<open>
  Lines 34 to 36 in detail. \<^verbatim>\<open>requests.post\<close> raises for a connection error and for a
  timeout, or it yields a response with a status code. \<^verbatim>\<open>raise_for_status\<close> of the library
  raises an \<^verbatim>\<open>HTTPError\<close> exactly for the codes 400 to 599; with any other code, 2xx or
  not, line 36 goes on to the body. The three exceptions are \<^verbatim>\<open>RequestException\<close>s. A
  response is its status code, the text of the error that \<^verbatim>\<open>raise_for_status\<close> makes of it,
  and its parsed body.
\<close>

datatype reply = ConnectionError string | Timeout string | Response nat string json

fun error_text :: "reply \<Rightarrow> string" where
  "error_text (ConnectionError e) = e"
| "error_text (Timeout e) = e"
| "error_text (Response status_code e api_response) = e"

fun send_request :: "reply \<Rightarrow> outcome" where
  "send_request (ConnectionError e) = TransportFailure e"
| "send_request (Timeout e) = TransportFailure e"
| "send_request (Response status_code e api_response) =
     (if 400 \<le> status_code \<and> status_code < 600 then TransportFailure e
      else Body api_response)"

text \<open>
  The network is any function from the payload and the number of the attempt to a reply;
  it gives the service that the loop sees.
\<close>

type_synonym network = "json \<Rightarrow> nat \<Rightarrow> reply"

definition over_network :: "network \<Rightarrow> service" where
  "over_network net payload i = send_request (net payload i)"

text \<open>
  What a run does besides returning: the requests it posts, the lines it prints and the
  time it sleeps, in order.
\<close>

datatype event =
    Post json
  | LogAttemptFailed nat string
  | Sleep nat
  | LogParseError py_error
  | LogUnhandled py_error

fun is_Post :: "event \<Rightarrow> bool" where
  "is_Post (Post p) = True"
| "is_Post _ = False"

definition attempts_made :: "event list \<Rightarrow> nat" where
  "attempts_made tr = length (filter is_Post tr)"

fun sleeps :: "event list \<Rightarrow> nat list" where
  "sleeps [] = []"
| "sleeps (Sleep n # tr) = n # sleeps tr"
| "sleeps (_ # tr) = sleeps tr"

section \<open>\<^verbatim>\<open>call_gemini_api\<close>\<close>

definition max_retries :: nat where
  "max_retries = 5"

definition no_response_msg :: string where
  "no_response_msg = ''Sorry, I couldn't generate a response. Please try again.''"

definition connect_msg :: string where
  "connect_msg = ''I'm sorry, I am unable to connect to the AI service right now. Please check your network and try again.''"

definition processing_msg :: string where
  "processing_msg = ''An unexpected error occurred while processing the AI response.''"

definition unavailable_msg :: string where
  "unavailable_msg = ''I'm sorry, the service is currently unavailable. Please try again later.''"

text \<open>
  The condition of line 38:
  \<^verbatim>\<open>'candidates' in api_response and len(api_response['candidates']) > 0\<close>.
\<close>

definition has_candidates :: "json \<Rightarrow> py_error + bool" where
  "has_candidates api_response =
     and_then (py_in ''candidates'' api_response) (\<lambda>present.
       if \<not> present then Inr False
       else and_then (getitem_key api_response ''candidates'') (\<lambda>cs.
            and_then (py_len cs) (\<lambda>n. Inr (n > 0))))"

text \<open>
  The expression of line 39:
  \<^verbatim>\<open>api_response['candidates'][0]['content']['parts'][0]['text']\<close>.
\<close>

definition extract_text :: "json \<Rightarrow> py_error + json" where
  "extract_text api_response =
     and_then (getitem_key api_response ''candidates'') (\<lambda>cs.
     and_then (getitem_index cs 0) (\<lambda>c.
     and_then (getitem_key c ''content'') (\<lambda>content.
     and_then (getitem_key content ''parts'') (\<lambda>parts.
     and_then (getitem_index parts 0) (\<lambda>part.
     getitem_key part ''text'')))))"

text \<open>Lines 38 to 40: what the body of the \<^verbatim>\<open>try\<close> does with a parsed response.\<close>

definition parse_response :: "json \<Rightarrow> py_error + json" where
  "parse_response api_response =
     and_then (has_candidates api_response) (\<lambda>ok.
       if ok then extract_text api_response else Inr (JStr no_response_msg))"

text \<open>
  How one iteration of the \<^verbatim>\<open>for\<close> loop ends: it goes on to the next iteration, it returns
  from the function, or an exception leaves the function.
\<close>

datatype step = Continue | Return json | Raise py_error

text \<open>
  The body of the loop for index \<open>i\<close> (lines 33 to 50). Only \<^verbatim>\<open>KeyError\<close> and
  \<^verbatim>\<open>IndexError\<close> are caught by the second handler; every other exception of the
  \<^verbatim>\<open>try\<close> body propagates.
\<close>

definition attempt :: "service \<Rightarrow> json \<Rightarrow> nat \<Rightarrow> step \<times> event list" where
  "attempt svc payload i =
     (case svc payload i of
        TransportFailure e \<Rightarrow>
          if i < max_retries - 1
          then (Continue, [Post payload, LogAttemptFailed (i + 1) e, Sleep (2 ^ i)])
          else (Return (JStr connect_msg), [Post payload, LogAttemptFailed (i + 1) e])
      | Body api_response \<Rightarrow>
          (case parse_response api_response of
             Inr v \<Rightarrow> (Return v, [Post payload])
           | Inl KeyError \<Rightarrow> (Return (JStr processing_msg), [Post payload, LogParseError KeyError])
           | Inl IndexError \<Rightarrow> (Return (JStr processing_msg), [Post payload, LogParseError IndexError])
           | Inl err \<Rightarrow> (Raise err, [Post payload])))"

text \<open>
  The \<^verbatim>\<open>for\<close> loop over the remaining indices. \<open>Continue\<close> as its result means that the
  indices ran out with no return.
\<close>

fun retry_loop :: "service \<Rightarrow> json \<Rightarrow> nat list \<Rightarrow> step \<times> event list" where
  "retry_loop svc payload [] = (Continue, [])"
| "retry_loop svc payload (i # is) =
     (case attempt svc payload i of
        (Continue, tr) \<Rightarrow>
          (case retry_loop svc payload is of (r, tr') \<Rightarrow> (r, tr @ tr'))
      | (r, tr) \<Rightarrow> (r, tr))"

text \<open>
  The function: the loop over \<^verbatim>\<open>range(max_retries)\<close>, then the return of line 51. The
  result is the value returned (\<open>Inr\<close>) or the exception that left the function (\<open>Inl\<close>),
  with the effects.
\<close>

definition call_gemini_api :: "service \<Rightarrow> json \<Rightarrow> (py_error + json) \<times> event list" where
  "call_gemini_api svc payload =
     (case retry_loop svc payload [0..<max_retries] of
        (Continue, tr) \<Rightarrow> (Inr (JStr unavailable_msg), tr)
      | (Return v, tr) \<Rightarrow> (Inr v, tr)
      | (Raise err, tr) \<Rightarrow> (Inl err, tr))"

section \<open>The handlers and the endpoint\<close>

text \<open>An HTTP response: the status and the JSON body. \<^verbatim>\<open>jsonify\<close> answers with status 200.\<close>

record http_response =
  status :: nat
  body :: json

definition jsonify :: "json \<Rightarrow> http_response" where
  "jsonify v = \<lparr>status = 200, body = v\<rparr>"

definition image_instruction :: string where
  "image_instruction = ''Analyze this image for signs of crop disease or pests. Identify the issue and provide a concise, actionable remedy. Be specific about the diagnosis and potential treatments.''"

definition system_instruction :: string where
  "system_instruction = ''You are a helpful and knowledgeable AI Farmer Assistant. Answer questions about crops, soil, weather, fertilizers, pests, and market rates. Use Google Search to get the most up-to-date information, especially for weather and market prices. Provide concise, easy-to-understand advice for a farmer.''"

definition chat_error_msg :: string where
  "chat_error_msg = ''An unexpected error occurred. Please try again.''"

text \<open>
  The dictionary literal of lines 84 to 102, given the value of
  \<^verbatim>\<open>image_data.split(',')[1]\<close>.
\<close>

definition image_query_payload :: "json \<Rightarrow> string \<Rightarrow> json" where
  "image_query_payload user_message data =
     JObj [
       (''contents'', JArr [JObj [
          (''parts'', JArr [
             JObj [(''text'', JStr image_instruction)],
             JObj [(''inlineData'', JObj [(''mimeType'', JStr ''image/jpeg''), (''data'', JStr data)])],
             JObj [(''text'', user_message)]])]]),
       (''generationConfig'', JObj [(''temperature'', JNum (2 / 10))])]"

text \<open>
  \<^verbatim>\<open>handle_image_query\<close>: the payload is built first, so an exception of the split or of
  the index leaves the function before any request is posted.
\<close>

definition handle_image_query ::
    "service \<Rightarrow> json \<Rightarrow> json \<Rightarrow> (py_error + http_response) \<times> event list" where
  "handle_image_query svc user_message image_data =
     (case and_then (str_split image_data) (\<lambda>ws. piece ws 1) of
        Inl err \<Rightarrow> (Inl err, [])
      | Inr data \<Rightarrow>
          (case call_gemini_api svc (image_query_payload user_message data) of
             (Inl err, tr) \<Rightarrow> (Inl err, tr)
           | (Inr gemini_response_text, tr) \<Rightarrow>
               (Inr (jsonify (JObj [(''response'', gemini_response_text)])), tr)))"

text \<open>The dictionary literal of lines 115 to 130.\<close>

definition text_query_payload :: "json \<Rightarrow> json" where
  "text_query_payload user_message =
     JObj [
       (''contents'', JArr [JObj [(''parts'', JArr [JObj [(''text'', user_message)]])]]),
       (''tools'', JArr [JObj [(''google_search'', JObj [])]]),
       (''systemInstruction'', JObj [(''parts'', JArr [JObj [(''text'', JStr system_instruction)]])]),
       (''generationConfig'', JObj [(''temperature'', JNum (7 / 10))])]"

definition handle_text_query ::
    "service \<Rightarrow> json \<Rightarrow> (py_error + http_response) \<times> event list" where
  "handle_text_query svc user_message =
     (case call_gemini_api svc (text_query_payload user_message) of
        (Inl err, tr) \<Rightarrow> (Inl err, tr)
      | (Inr gemini_response_text, tr) \<Rightarrow>
          (Inr (jsonify (JObj [(''response'', gemini_response_text)])), tr))"

text \<open>
  The \<^verbatim>\<open>try\<close> of \<^verbatim>\<open>chat\<close> (lines 65 to 74): an exception of the handler is printed and
  answered with the apology object and status 500.
\<close>

definition catch_all ::
    "(py_error + http_response) \<times> event list \<Rightarrow> (py_error + http_response) \<times> event list" where
  "catch_all r =
     (case r of
        (Inl err, tr) \<Rightarrow>
          (Inr ((jsonify (JObj [(''response'', JStr chat_error_msg)]))\<lparr>status := 500\<rparr>),
           tr @ [LogUnhandled err])
      | (Inr resp, tr) \<Rightarrow> (Inr resp, tr))"

text \<open>
  \<^verbatim>\<open>chat\<close>, from the parsed body \<^verbatim>\<open>request.json\<close>. The two \<^verbatim>\<open>data.get\<close> calls are
  outside the \<^verbatim>\<open>try\<close>: their exception leaves the function (\<open>Inl\<close>).
\<close>

definition chat :: "service \<Rightarrow> json \<Rightarrow> (py_error + http_response) \<times> event list" where
  "chat svc data =
     (case dict_get data ''message'' (JStr []) of
        Inl err \<Rightarrow> (Inl err, [])
      | Inr user_message \<Rightarrow>
          (case dict_get data ''imageData'' JNull of
             Inl err \<Rightarrow> (Inl err, [])
           | Inr image_data \<Rightarrow>
               catch_all
                 (if py_truthy image_data
                  then handle_image_query svc user_message image_data
                  else handle_text_query svc user_message)))"

section \<open>Traces and example inputs\<close>

text \<open>The effects of \<open>n\<close> failed attempts that are each followed by a sleep.\<close>

definition backoff_trace :: "json \<Rightarrow> (nat \<Rightarrow> string) \<Rightarrow> nat \<Rightarrow> event list" where
  "backoff_trace payload e n =
     concat (map (\<lambda>j. [Post payload, LogAttemptFailed (j + 1) (e j), Sleep (2 ^ j)]) [0..<n])"

text \<open>A response body of the expected shape, with the text \<open>t\<close>.\<close>

definition candidates_response :: "json \<Rightarrow> json" where
  "candidates_response t =
     JObj [(''candidates'', JArr [JObj [(''content'', JObj [(''parts'', JArr [JObj [(''text'', t)]])])]])]"

text \<open>A service that times out on the first \<open>n\<close> attempts and answers with body \<open>b\<close> afterwards.\<close>

definition fails_then :: "nat \<Rightarrow> json \<Rightarrow> service" where
  "fails_then n b payload i = (if i < n then TransportFailure ''timeout'' else Body b)"

text \<open>A network that gives the same reply to every attempt.\<close>

definition always_replies :: "reply \<Rightarrow> network" where
  "always_replies r payload i = r"

section \<open>The retry loop\<close>

text \<open>
  A failed attempt that is not the last one sleeps and goes on; the last one returns.
\<close>

lemma attempt_failure:
  "svc p i = TransportFailure msg \<Longrightarrow> i < max_retries - 1 \<Longrightarrow>
   attempt svc p i = (Continue, [Post p, LogAttemptFailed (i + 1) msg, Sleep (2 ^ i)])"
  by (simp add: attempt_def)

lemma attempt_last_failure:
  "svc p i = TransportFailure msg \<Longrightarrow> \<not> i < max_retries - 1 \<Longrightarrow>
   attempt svc p i = (Return (JStr connect_msg), [Post p, LogAttemptFailed (i + 1) msg])"
  by (simp add: attempt_def)

lemma attempt_body:
  "svc p i = Body b \<Longrightarrow> parse_response b = Inr v \<Longrightarrow> attempt svc p i = (Return v, [Post p])"
  by (simp add: attempt_def)

lemma attempt_parse_error:
  "svc p i = Body b \<Longrightarrow> parse_response b = Inl err \<Longrightarrow> err = KeyError \<or> err = IndexError \<Longrightarrow>
   attempt svc p i = (Return (JStr processing_msg), [Post p, LogParseError err])"
  by (auto simp: attempt_def)

lemma attempt_last_never_continues:
  "\<not> i < max_retries - 1 \<Longrightarrow> fst (attempt svc p i) \<noteq> Continue"
  by (simp add: attempt_def split: outcome.splits sum.splits py_error.splits)

lemma attempt_returns:
  "fst (attempt svc p i) = Return v \<Longrightarrow>
   v = JStr connect_msg \<or> v = JStr processing_msg
   \<or> (\<exists>b. svc p i = Body b \<and> parse_response b = Inr v)"
  by (auto simp: attempt_def split: outcome.splits sum.splits py_error.splits if_splits)

lemma attempt_first_post: "\<exists>tr. snd (attempt svc p i) = Post p # tr"
  by (simp add: attempt_def split: outcome.splits sum.splits py_error.splits)

lemma attempt_posts: "filter is_Post (snd (attempt svc p i)) = [Post p]"
  by (simp add: attempt_def split: outcome.splits sum.splits py_error.splits)

text \<open>
  The loop passes over a run of failed attempts, collecting their effects, and stops at the
  first attempt that does not go on.
\<close>

lemma retry_loop_failures:
  "\<forall>j\<in>set xs. j < max_retries - 1 \<and> svc p j = TransportFailure (e j) \<Longrightarrow>
   retry_loop svc p (xs @ ys) =
     (fst (retry_loop svc p ys),
      concat (map (\<lambda>j. [Post p, LogAttemptFailed (j + 1) (e j), Sleep (2 ^ j)]) xs)
        @ snd (retry_loop svc p ys))"
proof (induction xs)
  case Nil
  then show ?case by simp
next
  case (Cons x xs)
  then have "attempt svc p x = (Continue, [Post p, LogAttemptFailed (x + 1) (e x), Sleep (2 ^ x)])"
    by (simp add: attempt_failure)
  with Cons show ?case by simp
qed

lemma retry_loop_stops:
  "fst (attempt svc p i) \<noteq> Continue \<Longrightarrow> retry_loop svc p (i # is) = attempt svc p i"
  by (cases "attempt svc p i") (auto split: step.splits)

lemma range_split: "i < n \<Longrightarrow> [0..<n] = [0..<i] @ i # [Suc i..<n]"
proof -
  assume "i < n"
  then have "[0..<n] = [0..<i] @ [i..<n]"
    using upt_add_eq_append [of 0 i "n - i"] by simp
  with \<open>i < n\<close> show ?thesis by (simp add: upt_conv_Cons)
qed

lemma range_max_retries: "[0..<max_retries] = [0, 1, 2, 3, 4]"
  by (simp add: max_retries_def upt_rec [of 0] upt_rec [of "Suc _"] eval_nat_numeral)

lemma range_five: "[0..<5] = [0, 1, 2, 3, 4]"
  using range_max_retries by (simp add: max_retries_def)

lemma retry_loop_reaches:
  assumes "i < max_retries"
    and "\<forall>j<i. svc p j = TransportFailure (e j)"
    and "fst (attempt svc p i) \<noteq> Continue"
  shows "retry_loop svc p [0..<max_retries] =
           (fst (attempt svc p i), backoff_trace p e i @ snd (attempt svc p i))"
proof -
  have split: "[0..<max_retries] = [0..<i] @ i # [Suc i..<max_retries]"
    using assms(1) by (rule range_split)
  have "\<forall>j\<in>set [0..<i]. j < max_retries - 1 \<and> svc p j = TransportFailure (e j)"
    using assms(1,2) by auto
  then show ?thesis
    unfolding split backoff_trace_def
    by (simp only: retry_loop_failures retry_loop_stops [OF assms(3)])
qed

lemma call_reaches:
  assumes "i < max_retries"
    and "\<forall>j<i. svc p j = TransportFailure (e j)"
    and "attempt svc p i = (Return v, tr)"
  shows "call_gemini_api svc p = (Inr v, backoff_trace p e i @ tr)"
  using retry_loop_reaches [of i svc p e] assms by (simp add: call_gemini_api_def)

lemma five_failures:
  assumes "\<forall>i<5. svc p i = TransportFailure (e i)"
  shows "call_gemini_api svc p =
           (Inr (JStr connect_msg),
            [Post p, LogAttemptFailed 1 (e 0), Sleep 1,
             Post p, LogAttemptFailed 2 (e 1), Sleep 2,
             Post p, LogAttemptFailed 3 (e 2), Sleep 4,
             Post p, LogAttemptFailed 4 (e 3), Sleep 8,
             Post p, LogAttemptFailed 5 (e 4)])
         \<and> attempts_made (snd (call_gemini_api svc p)) = 5"
proof -
  have last: "attempt svc p 4 =
      (Return (JStr connect_msg), [Post p, LogAttemptFailed 5 (e 4)])"
    using assms by (simp add: attempt_last_failure max_retries_def)
  have "call_gemini_api svc p =
      (Inr (JStr connect_msg), backoff_trace p e 4 @ [Post p, LogAttemptFailed 5 (e 4)])"
    using assms by (intro call_reaches last) (simp_all add: max_retries_def)
  then show ?thesis
    by (simp add: backoff_trace_def attempts_made_def upt_rec [of 0] upt_rec [of "Suc _"] eval_nat_numeral)
qed

text \<open>
  Every service is the service over some network, so what holds for all services holds
  over all networks.
\<close>

lemma service_over_network: "\<exists>net. over_network net = svc"
proof
  show "over_network
      (\<lambda>p i. case svc p i of TransportFailure e \<Rightarrow> ConnectionError e
        | Body b \<Rightarrow> Response 200 [] b) = svc"
    by (auto simp: over_network_def fun_eq_iff split: outcome.splits)
qed

text \<open>
  The last index of the range never goes on, so the loop never runs out of indices.
\<close>

lemma retry_loop_last:
  "fst (attempt svc p i) \<noteq> Continue \<Longrightarrow> fst (retry_loop svc p (xs @ [i])) \<noteq> Continue"
  by (induction xs) (auto split: prod.splits step.splits)

lemma retry_loop_never_falls_through:
  "fst (retry_loop svc p [0..<max_retries]) \<noteq> Continue"
proof -
  have "fst (attempt svc p 4) \<noteq> Continue"
    by (rule attempt_last_never_continues) (simp add: max_retries_def)
  then have "fst (retry_loop svc p ([0, 1, 2, 3] @ [4])) \<noteq> Continue"
    by (rule retry_loop_last)
  then show ?thesis
    by (simp add: range_max_retries del: retry_loop.simps)
qed

lemma retry_loop_returns:
  "fst (retry_loop svc p xs) = Return v \<Longrightarrow>
   v = JStr connect_msg \<or> v = JStr processing_msg
   \<or> (\<exists>i b. List.member xs i \<and> svc p i = Body b \<and> parse_response b = Inr v)"
proof (induction xs)
  case Nil
  then show ?case by simp
next
  case (Cons x xs)
  show ?case
  proof (cases "fst (attempt svc p x) = Continue")
    case True
    with Cons.prems have "fst (retry_loop svc p xs) = Return v"
      by (cases "attempt svc p x") (auto split: prod.splits)
    from Cons.IH [OF this] show ?thesis by auto
  next
    case False
    with Cons.prems have "fst (attempt svc p x) = Return v"
      using retry_loop_stops [of svc p x xs] by (simp del: retry_loop.simps)
    from attempt_returns [OF this] show ?thesis by auto
  qed
qed

lemma fallbacks_distinct:
  "unavailable_msg \<noteq> connect_msg" "unavailable_msg \<noteq> processing_msg"
  "unavailable_msg \<noteq> no_response_msg"
  by (simp_all add: unavailable_msg_def connect_msg_def processing_msg_def no_response_msg_def)

subsection \<open>Traces\<close>

lemma attempts_made_append: "attempts_made (a @ b) = attempts_made a + attempts_made b"
  by (simp add: attempts_made_def)

lemma attempts_made_backoff: "attempts_made (backoff_trace p e n) = n"
  by (induction n) (simp_all add: backoff_trace_def attempts_made_def)

lemma retry_loop_posts: "\<exists>n. filter is_Post (snd (retry_loop svc p xs)) = replicate n (Post p)"
proof (induction xs)
  case Nil
  then show ?case by simp
next
  case (Cons x xs)
  then obtain n where n: "filter is_Post (snd (retry_loop svc p xs)) = replicate n (Post p)"
    by blast
  obtain r tr where a: "attempt svc p x = (r, tr)"
    by (cases "attempt svc p x")
  with attempt_posts [of svc p x] have tr: "filter is_Post tr = [Post p]"
    by simp
  show ?case
  proof (cases r)
    case Continue
    with a n tr have "filter is_Post (snd (retry_loop svc p (x # xs))) = replicate (Suc n) (Post p)"
      by (cases "retry_loop svc p xs") simp
    then show ?thesis by blast
  next
    case (Return v)
    with a tr have "filter is_Post (snd (retry_loop svc p (x # xs))) = replicate 1 (Post p)"
      by simp
    then show ?thesis by blast
  next
    case (Raise err)
    with a tr have "filter is_Post (snd (retry_loop svc p (x # xs))) = replicate 1 (Post p)"
      by simp
    then show ?thesis by blast
  qed
qed

lemma snd_call_gemini_api:
  "snd (call_gemini_api svc p) = snd (retry_loop svc p [0..<max_retries])"
  by (cases "retry_loop svc p [0..<max_retries]")
     (simp add: call_gemini_api_def split: step.splits)

lemma call_posts:
  "filter is_Post (snd (call_gemini_api svc p)) =
     replicate (attempts_made (snd (call_gemini_api svc p))) (Post p)"
proof -
  obtain n where "filter is_Post (snd (retry_loop svc p [0..<max_retries])) = replicate n (Post p)"
    using retry_loop_posts by blast
  then show ?thesis
    by (simp add: snd_call_gemini_api attempts_made_def)
qed

lemma call_first_post: "\<exists>tr. snd (call_gemini_api svc p) = Post p # tr"
proof -
  obtain tr where "snd (attempt svc p 0) = Post p # tr"
    using attempt_first_post by blast
  then have "\<exists>tr'. snd (retry_loop svc p (0 # [1, 2, 3, 4])) = Post p # tr'"
    by (cases "attempt svc p 0") (auto simp del: retry_loop.simps(2) simp add: retry_loop.simps(2) [of svc p 0] split: step.splits prod.splits)
  then show ?thesis
    by (simp add: snd_call_gemini_api range_max_retries del: retry_loop.simps)
qed

subsection \<open>Parsing the response\<close>

lemma parse_well_formed:
  assumes "map_of kvs ''candidates'' = Some (JArr (JObj c # cs))"
    and "map_of c ''content'' = Some (JObj ct)"
    and "map_of ct ''parts'' = Some (JArr (JObj pt # ps))"
    and "map_of pt ''text'' = Some t"
  shows "parse_response (JObj kvs) = Inr t"
  using assms by (simp add: parse_response_def has_candidates_def extract_text_def and_then_def)

lemma parse_response_text:
  "parse_response b = Inr v \<Longrightarrow> v \<noteq> JStr no_response_msg \<Longrightarrow>
   has_candidates b = Inr True \<and> extract_text b = Inr v"
  by (auto simp: parse_response_def and_then_def split: sum.splits if_splits)

section \<open>Splitting the image data\<close>

lemma py_split_no_separator: "c \<notin> set s \<Longrightarrow> py_split c s = [s]"
  by (induction s) auto

lemma py_split_nonempty: "py_split c s \<noteq> []"
  by (induction s) (auto split: list.splits)

lemma hd_py_split: "hd (py_split c s) = takeWhile (\<lambda>x. x \<noteq> c) s"
  by (induction s) (auto simp: py_split_nonempty split: list.splits)

lemma tl_py_split:
  "c \<in> set s \<Longrightarrow> tl (py_split c s) = py_split c (tl (dropWhile (\<lambda>x. x \<noteq> c) s))"
  by (induction s) (auto split: list.splits)

text \<open>
  With a separator in the string, the second piece is what lies between the first
  separator and the next one (or the end of the string).
\<close>

lemma second_piece:
  assumes "c \<in> set s"
  shows "piece (py_split c s) 1 = Inr (takeWhile (\<lambda>x. x \<noteq> c) (tl (dropWhile (\<lambda>x. x \<noteq> c) s)))"
proof -
  obtain w ws where ws: "py_split c s = w # ws"
    using py_split_nonempty [of c s] by (cases "py_split c s") auto
  with tl_py_split [OF assms] have "ws = py_split c (tl (dropWhile (\<lambda>x. x \<noteq> c) s))"
    by simp
  moreover obtain v vs where "py_split c (tl (dropWhile (\<lambda>x. x \<noteq> c) s)) = v # vs"
    using py_split_nonempty [of c "tl (dropWhile (\<lambda>x. x \<noteq> c) s)"]
    by (cases "py_split c (tl (dropWhile (\<lambda>x. x \<noteq> c) s))") auto
  ultimately show ?thesis
    using ws hd_py_split [of c "tl (dropWhile (\<lambda>x. x \<noteq> c) s)"] by (simp add: piece_def)
qed

section \<open>The handlers\<close>

lemma snd_handle_text_query:
  "snd (handle_text_query svc m) = snd (call_gemini_api svc (text_query_payload m))"
  by (cases "call_gemini_api svc (text_query_payload m)")
     (simp add: handle_text_query_def split: sum.splits)

lemma snd_handle_image_query:
  "and_then (str_split image_data) (\<lambda>ws. piece ws 1) = Inr d \<Longrightarrow>
   snd (handle_image_query svc m image_data) = snd (call_gemini_api svc (image_query_payload m d))"
  by (cases "call_gemini_api svc (image_query_payload m d)")
     (simp add: handle_image_query_def split: sum.splits)

lemma image_query_payload_parts:
  "getitem_key (image_query_payload user_message d) ''contents'' =
     Inr (JArr [JObj [(''parts'', JArr [
       JObj [(''text'', JStr image_instruction)],
       JObj [(''inlineData'', JObj [(''mimeType'', JStr ''image/jpeg''), (''data'', JStr d)])],
       JObj [(''text'', user_message)]])]])"
  "and_then (getitem_key (image_query_payload user_message d) ''generationConfig'')
     (\<lambda>config. getitem_key config ''temperature'') = Inr (JNum (2 / 10))"
  by (simp_all add: image_query_payload_def and_then_def)

section \<open>The claims\<close>

text \<open>
  C1, as amended. If each of the five attempts ends in a connection error, a timeout or a
  response with a status code from 400 to 599, the function posts exactly five times,
  sleeps 1, 2, 4 and 8 in between, and returns the connectivity apology; no exception
  leaves it.
\<close>

theorem all_attempts_fail:
  assumes "\<forall>i<5. (\<exists>e. net payload i = ConnectionError e)
              \<or> (\<exists>e. net payload i = Timeout e)
              \<or> (\<exists>status_code e b. net payload i = Response status_code e b
                    \<and> 400 \<le> status_code \<and> status_code < 600)"
  shows "call_gemini_api (over_network net) payload =
           (Inr (JStr connect_msg),
            [Post payload, LogAttemptFailed 1 (error_text (net payload 0)), Sleep 1,
             Post payload, LogAttemptFailed 2 (error_text (net payload 1)), Sleep 2,
             Post payload, LogAttemptFailed 3 (error_text (net payload 2)), Sleep 4,
             Post payload, LogAttemptFailed 4 (error_text (net payload 3)), Sleep 8,
             Post payload, LogAttemptFailed 5 (error_text (net payload 4))])
         \<and> attempts_made (snd (call_gemini_api (over_network net) payload)) = 5"
proof -
  have "\<forall>i<5. over_network net payload i = TransportFailure (error_text (net payload i))"
  proof (intro allI impI)
    fix i :: nat
    assume "i < 5"
    with assms consider e where "net payload i = ConnectionError e"
      | e where "net payload i = Timeout e"
      | status_code e b where "net payload i = Response status_code e b"
          "400 \<le> status_code" "status_code < 600"
      by blast
    then show "over_network net payload i = TransportFailure (error_text (net payload i))"
      by cases (simp_all add: over_network_def)
  qed
  then show ?thesis
    by (rule five_failures)
qed

theorem all_attempts_fail_witness:
  "call_gemini_api
     (over_network (always_replies (Response 503 ''503 Server Error'' JNull))) JNull =
     (Inr (JStr connect_msg),
      [Post JNull, LogAttemptFailed 1 ''503 Server Error'', Sleep 1,
       Post JNull, LogAttemptFailed 2 ''503 Server Error'', Sleep 2,
       Post JNull, LogAttemptFailed 3 ''503 Server Error'', Sleep 4,
       Post JNull, LogAttemptFailed 4 ''503 Server Error'', Sleep 8,
       Post JNull, LogAttemptFailed 5 ''503 Server Error''])"
  using all_attempts_fail [of "always_replies (Response 503 ''503 Server Error'' JNull)" JNull]
  by (simp add: always_replies_def)

text \<open>
  C1 as stated fails: it counts every status outside 2xx as a failure of the attempt. A
  response with status 300 is not one for \<^verbatim>\<open>raise_for_status\<close>; its body is parsed, and
  the function returns the text after a single request.
\<close>

theorem redirect_status_counterexample:
  "fst (call_gemini_api
     (over_network (always_replies
        (Response 300 ''300 Multiple Choices'' (candidates_response (JStr ''ok''))))) JNull) =
     Inr (JStr ''ok'')
   \<and> attempts_made (snd (call_gemini_api
     (over_network (always_replies
        (Response 300 ''300 Multiple Choices'' (candidates_response (JStr ''ok''))))) JNull)) = 1
   \<and> JStr ''ok'' \<noteq> JStr connect_msg"
  by (simp add: call_gemini_api_def max_retries_def range_five attempt_def over_network_def
      always_replies_def candidates_response_def parse_response_def has_candidates_def
      extract_text_def and_then_def attempts_made_def connect_msg_def)

text \<open>
  C2. The claim is that the function returns a string for every response body and lets no
  exception out. The handler of line 48 catches \<^verbatim>\<open>KeyError\<close> and \<^verbatim>\<open>IndexError\<close> only. A
  body whose first candidate has \<^verbatim>\<open>null\<close> as its content makes the subscript of line 39
  raise \<^verbatim>\<open>TypeError\<close>, which leaves the function after one request; and a body of the
  expected shape whose text is the number 5 makes it return that number, not a string.
\<close>

theorem wrong_type_propagates:
  "call_gemini_api (fails_then 0 (JObj [(''candidates'', JArr [JObj [(''content'', JNull)]])])) payload =
     (Inl TypeError, [Post payload])
   \<and> call_gemini_api (fails_then 0 (candidates_response (JNum 5))) payload =
     (Inr (JNum 5), [Post payload])"
  by (simp add: call_gemini_api_def range_max_retries attempt_def fails_then_def
      candidates_response_def parse_response_def has_candidates_def extract_text_def and_then_def)

text \<open>
  C3. The claim is that the inline data is all of \<^verbatim>\<open>imageData\<close> after the first comma.
  Line 93 takes the second piece of a split at every comma, so a second comma cuts the data
  short: for \<^verbatim>\<open>data:image/jpeg;base64,AAAA,BBBB\<close> the request carries \<^verbatim>\<open>AAAA\<close>, where the
  part after the first comma is \<^verbatim>\<open>AAAA,BBBB\<close>.
\<close>

theorem second_comma_truncates:
  "and_then (str_split (JStr ''data:image/jpeg;base64,AAAA,BBBB'')) (\<lambda>ws. piece ws 1) = Inr ''AAAA''
   \<and> (\<exists>tr. snd (handle_image_query svc user_message (JStr ''data:image/jpeg;base64,AAAA,BBBB'')) =
         Post (image_query_payload user_message ''AAAA'') # tr)
   \<and> image_query_payload user_message ''AAAA'' \<noteq> image_query_payload user_message ''AAAA,BBBB''"
proof (intro conjI)
  show split: "and_then (str_split (JStr ''data:image/jpeg;base64,AAAA,BBBB'')) (\<lambda>ws. piece ws 1) =
      Inr ''AAAA''"
    by (simp add: and_then_def piece_def)
  show "\<exists>tr. snd (handle_image_query svc user_message (JStr ''data:image/jpeg;base64,AAAA,BBBB'')) =
         Post (image_query_payload user_message ''AAAA'') # tr"
    by (simp only: snd_handle_image_query [OF split] call_first_post)
  show "image_query_payload user_message ''AAAA'' \<noteq> image_query_payload user_message ''AAAA,BBBB''"
    by (simp add: image_query_payload_def)
qed

text \<open>
  C4, as amended. For a request whose body is a JSON object, \<^verbatim>\<open>chat\<close> runs the image
  handler when \<^verbatim>\<open>imageData\<close> is present and true as a condition (for a string: not empty),
  and the text handler when it is absent or false as a condition (\<^verbatim>\<open>null\<close>, the empty
  string, \<^verbatim>\<open>false\<close>, 0, an empty list or object); the text handler's first effect is the
  request with the text payload of the message.
\<close>

theorem chat_routes_on_truthiness:
  assumes "dict_get (JObj kvs) ''message'' (JStr []) = Inr user_message"
  shows "(map_of kvs ''imageData'' = Some image_data \<and> py_truthy image_data \<longrightarrow>
            chat svc (JObj kvs) = catch_all (handle_image_query svc user_message image_data))
       \<and> (map_of kvs ''imageData'' = None
            \<or> (map_of kvs ''imageData'' = Some image_data \<and> \<not> py_truthy image_data) \<longrightarrow>
            chat svc (JObj kvs) = catch_all (handle_text_query svc user_message)
            \<and> (\<exists>tr. snd (chat svc (JObj kvs)) = Post (text_query_payload user_message) # tr))"
proof (intro conjI impI)
  assume "map_of kvs ''imageData'' = Some image_data \<and> py_truthy image_data"
  with assms show "chat svc (JObj kvs) = catch_all (handle_image_query svc user_message image_data)"
    by (simp add: chat_def)
next
  assume a: "map_of kvs ''imageData'' = None
            \<or> (map_of kvs ''imageData'' = Some image_data \<and> \<not> py_truthy image_data)"
  with assms show t: "chat svc (JObj kvs) = catch_all (handle_text_query svc user_message)"
    by (auto simp: chat_def)
  obtain tr where "snd (handle_text_query svc user_message) = Post (text_query_payload user_message) # tr"
    using call_first_post [of svc "text_query_payload user_message"]
    by (auto simp: snd_handle_text_query)
  then show "\<exists>tr. snd (chat svc (JObj kvs)) = Post (text_query_payload user_message) # tr"
    unfolding t by (cases "handle_text_query svc user_message") (auto simp: catch_all_def split: sum.splits)
qed

theorem chat_routes_on_truthiness_witness:
  "chat (fails_then 0 (candidates_response (JStr ''ok'')))
        (JObj [(''message'', JStr ''diagnose''), (''imageData'', JStr ''data:image/jpeg;base64,AAAA'')]) =
      catch_all (handle_image_query (fails_then 0 (candidates_response (JStr ''ok'')))
        (JStr ''diagnose'') (JStr ''data:image/jpeg;base64,AAAA''))
   \<and> chat (fails_then 0 (candidates_response (JStr ''ok''))) (JObj [(''message'', JStr ''hi'')]) =
      catch_all (handle_text_query (fails_then 0 (candidates_response (JStr ''ok''))) (JStr ''hi''))"
  using chat_routes_on_truthiness [of "[(''message'', JStr ''diagnose''), (''imageData'', JStr ''data:image/jpeg;base64,AAAA'')]"
      "JStr ''diagnose''" "JStr ''data:image/jpeg;base64,AAAA''" "fails_then 0 (candidates_response (JStr ''ok''))"]
    chat_routes_on_truthiness [of "[(''message'', JStr ''hi'')]" "JStr ''hi''" JNull
      "fails_then 0 (candidates_response (JStr ''ok''))"]
  by simp

text \<open>
  C4 as stated fails: a request with \<^verbatim>\<open>imageData\<close> present as the empty string is
  answered by the text handler, not by the image handler.
\<close>

theorem empty_image_data_counterexample:
  "map_of [(''message'', JStr ''hi''), (''imageData'', JStr [])] ''imageData'' = Some (JStr [])
   \<and> chat (fails_then 0 (candidates_response (JStr ''ok'')))
        (JObj [(''message'', JStr ''hi''), (''imageData'', JStr [])]) =
      catch_all (handle_text_query (fails_then 0 (candidates_response (JStr ''ok''))) (JStr ''hi''))
   \<and> chat (fails_then 0 (candidates_response (JStr ''ok'')))
        (JObj [(''message'', JStr ''hi''), (''imageData'', JStr [])]) \<noteq>
      catch_all (handle_image_query (fails_then 0 (candidates_response (JStr ''ok''))) (JStr ''hi'') (JStr []))"
  by (simp add: chat_def catch_all_def handle_text_query_def handle_image_query_def
      call_gemini_api_def range_max_retries attempt_def fails_then_def
      candidates_response_def parse_response_def has_candidates_def extract_text_def and_then_def
      piece_def jsonify_def)

text \<open>
  C5. If attempts 1 to 4 end in a transport failure and attempt 5 yields a body of the
  expected shape, the function returns that body's text; it sleeps 1, 2, 4 and 8 between
  the attempts, and its last effect is the fifth request.
\<close>

theorem recovers_on_fifth_attempt:
  assumes "\<forall>i<4. svc payload i = TransportFailure (e i)"
    and "svc payload 4 = Body (JObj kvs)"
    and "map_of kvs ''candidates'' = Some (JArr (JObj c # cs))"
    and "map_of c ''content'' = Some (JObj ct)"
    and "map_of ct ''parts'' = Some (JArr (JObj pt # ps))"
    and "map_of pt ''text'' = Some t"
  shows "call_gemini_api svc payload =
           (Inr t,
            [Post payload, LogAttemptFailed 1 (e 0), Sleep 1,
             Post payload, LogAttemptFailed 2 (e 1), Sleep 2,
             Post payload, LogAttemptFailed 3 (e 2), Sleep 4,
             Post payload, LogAttemptFailed 4 (e 3), Sleep 8,
             Post payload])
         \<and> sleeps (snd (call_gemini_api svc payload)) = [1, 2, 4, 8]"
proof -
  have "parse_response (JObj kvs) = Inr t"
    using assms(3-6) by (rule parse_well_formed)
  with assms(2) have last: "attempt svc payload 4 = (Return t, [Post payload])"
    by (rule attempt_body)
  have "call_gemini_api svc payload = (Inr t, backoff_trace payload e 4 @ [Post payload])"
    using assms(1) by (intro call_reaches last) (simp_all add: max_retries_def)
  then show ?thesis
    by (simp add: backoff_trace_def upt_rec [of 0] upt_rec [of "Suc _"] eval_nat_numeral)
qed

theorem recovers_on_fifth_attempt_witness:
  "call_gemini_api (fails_then 4 (candidates_response (JStr ''Water the crop.''))) JNull =
     (Inr (JStr ''Water the crop.''),
      [Post JNull, LogAttemptFailed 1 ''timeout'', Sleep 1,
       Post JNull, LogAttemptFailed 2 ''timeout'', Sleep 2,
       Post JNull, LogAttemptFailed 3 ''timeout'', Sleep 4,
       Post JNull, LogAttemptFailed 4 ''timeout'', Sleep 8,
       Post JNull])"
  using recovers_on_fifth_attempt [of "fails_then 4 (candidates_response (JStr ''Water the crop.''))"
      JNull "\<lambda>i. ''timeout''" _ "[(''content'', JObj [(''parts'', JArr [JObj [(''text'', JStr ''Water the crop.'')]])])]"
      "[]" "[(''parts'', JArr [JObj [(''text'', JStr ''Water the crop.'')]])]"
      "[(''text'', JStr ''Water the crop.'')]" "[]" "JStr ''Water the crop.''"]
  by (simp add: fails_then_def candidates_response_def)

text \<open>
  C6. If an attempt yields a body with candidates and the extraction of the text raises
  \<^verbatim>\<open>KeyError\<close> or \<^verbatim>\<open>IndexError\<close>, the function returns the processing apology at once:
  the request of that attempt is the last one.
\<close>

theorem parse_error_not_retried:
  assumes "i < 5"
    and "\<forall>j<i. svc payload j = TransportFailure (e j)"
    and "svc payload i = Body b"
    and "has_candidates b = Inr True"
    and "extract_text b = Inl err"
    and "err = KeyError \<or> err = IndexError"
  shows "call_gemini_api svc payload =
           (Inr (JStr processing_msg),
            backoff_trace payload e i @ [Post payload, LogParseError err])
         \<and> attempts_made (snd (call_gemini_api svc payload)) = i + 1"
proof -
  have "parse_response b = Inl err"
    using assms(4,5) by (simp add: parse_response_def and_then_def)
  with assms(3) have "attempt svc payload i =
      (Return (JStr processing_msg), [Post payload, LogParseError err])"
    using assms(6) by (rule attempt_parse_error)
  then have "call_gemini_api svc payload =
      (Inr (JStr processing_msg), backoff_trace payload e i @ [Post payload, LogParseError err])"
    using assms(1,2) by (intro call_reaches) (simp_all add: max_retries_def)
  then show ?thesis
    by (simp add: attempts_made_append attempts_made_backoff) (simp add: attempts_made_def)
qed

theorem parse_error_not_retried_witness:
  "has_candidates (JObj [(''candidates'', JArr [JObj []])]) = Inr True
   \<and> extract_text (JObj [(''candidates'', JArr [JObj []])]) = Inl KeyError
   \<and> call_gemini_api (fails_then 2 (JObj [(''candidates'', JArr [JObj []])])) JNull =
       (Inr (JStr processing_msg),
        [Post JNull, LogAttemptFailed 1 ''timeout'', Sleep 1,
         Post JNull, LogAttemptFailed 2 ''timeout'', Sleep 2,
         Post JNull, LogParseError KeyError])"
  using parse_error_not_retried [of 2 "fails_then 2 (JObj [(''candidates'', JArr [JObj []])])"
      JNull "\<lambda>i. ''timeout''" "JObj [(''candidates'', JArr [JObj []])]" KeyError]
  by (simp add: fails_then_def has_candidates_def extract_text_def and_then_def
      backoff_trace_def upt_rec [of 0] upt_rec [of "Suc _"] eval_nat_numeral)

text \<open>
  C7. If an attempt yields an object whose candidates are absent or the empty list, the
  function returns the "couldn't generate a response" apology at once: the request of
  that attempt is the last one.
\<close>

theorem no_candidates_not_retried:
  assumes "i < 5"
    and "\<forall>j<i. svc payload j = TransportFailure (e j)"
    and "svc payload i = Body (JObj kvs)"
    and "map_of kvs ''candidates'' = None \<or> map_of kvs ''candidates'' = Some (JArr [])"
  shows "call_gemini_api svc payload =
           (Inr (JStr no_response_msg), backoff_trace payload e i @ [Post payload])
         \<and> attempts_made (snd (call_gemini_api svc payload)) = i + 1"
proof -
  have "parse_response (JObj kvs) = Inr (JStr no_response_msg)"
    using assms(4) by (auto simp: parse_response_def has_candidates_def and_then_def)
  with assms(3) have "attempt svc payload i = (Return (JStr no_response_msg), [Post payload])"
    by (rule attempt_body)
  then have "call_gemini_api svc payload =
      (Inr (JStr no_response_msg), backoff_trace payload e i @ [Post payload])"
    using assms(1,2) by (intro call_reaches) (simp_all add: max_retries_def)
  then show ?thesis
    by (simp add: attempts_made_append attempts_made_backoff) (simp add: attempts_made_def)
qed

theorem no_candidates_not_retried_witness:
  "call_gemini_api (fails_then 2 (JObj [(''candidates'', JArr [])])) JNull =
       (Inr (JStr no_response_msg),
        [Post JNull, LogAttemptFailed 1 ''timeout'', Sleep 1,
         Post JNull, LogAttemptFailed 2 ''timeout'', Sleep 2,
         Post JNull])"
  using no_candidates_not_retried [of 2 "fails_then 2 (JObj [(''candidates'', JArr [])])"
      JNull "\<lambda>i. ''timeout''" "[(''candidates'', JArr [])]"]
  by (simp add: fails_then_def backoff_trace_def upt_rec [of 0] upt_rec [of "Suc _"] eval_nat_numeral)

text \<open>
  C8. Every request that \<^verbatim>\<open>handle_text_query\<close> posts carries the same payload, and it
  posts at least one. The payload has one content with the single part that holds the
  message, the Google Search tool, the farmer-assistant system instruction and the
  temperature 0.7.
\<close>

theorem text_query_payload_shape:
  "(\<exists>tr. snd (handle_text_query svc user_message) = Post (text_query_payload user_message) # tr)
   \<and> filter is_Post (snd (handle_text_query svc user_message)) =
       replicate (attempts_made (snd (handle_text_query svc user_message)))
         (Post (text_query_payload user_message))
   \<and> getitem_key (text_query_payload user_message) ''contents'' =
       Inr (JArr [JObj [(''parts'', JArr [JObj [(''text'', user_message)]])]])
   \<and> getitem_key (text_query_payload user_message) ''tools'' =
       Inr (JArr [JObj [(''google_search'', JObj [])]])
   \<and> getitem_key (text_query_payload user_message) ''systemInstruction'' =
       Inr (JObj [(''parts'', JArr [JObj [(''text'', JStr system_instruction)]])])
   \<and> and_then (getitem_key (text_query_payload user_message) ''generationConfig'')
        (\<lambda>config. getitem_key config ''temperature'') = Inr (JNum (7 / 10))"
proof (intro conjI)
  show "\<exists>tr. snd (handle_text_query svc user_message) = Post (text_query_payload user_message) # tr"
    by (simp add: snd_handle_text_query call_first_post)
  show "filter is_Post (snd (handle_text_query svc user_message)) =
       replicate (attempts_made (snd (handle_text_query svc user_message)))
         (Post (text_query_payload user_message))"
    by (simp only: snd_handle_text_query call_posts)
qed (simp_all add: text_query_payload_def and_then_def)

text \<open>
  C9. A request whose \<^verbatim>\<open>imageData\<close> is a non-empty string with no comma is answered
  with status 500 and the apology object of the catch-all; the index of line 93 raises
  \<^verbatim>\<open>IndexError\<close> before any request is posted.
\<close>

theorem malformed_image_data_is_500:
  assumes "map_of kvs ''imageData'' = Some (JStr s)"
    and "s \<noteq> []"
    and "CHR '','' \<notin> set s"
  shows "chat svc (JObj kvs) =
           (Inr \<lparr>status = 500, body = JObj [(''response'', JStr chat_error_msg)]\<rparr>,
            [LogUnhandled IndexError])"
proof -
  have "and_then (str_split (JStr s)) (\<lambda>ws. piece ws 1) = Inl IndexError"
    using assms(3) by (simp add: and_then_def piece_def py_split_no_separator)
  then have "handle_image_query svc m (JStr s) = (Inl IndexError, [])" for m
    by (simp add: handle_image_query_def)
  with assms(1,2) show ?thesis
    by (simp add: chat_def catch_all_def jsonify_def)
qed

theorem malformed_image_data_is_500_witness:
  "chat (fails_then 0 (candidates_response (JStr ''Leaf rust.'')))
     (JObj [(''message'', JStr ''diagnose''), (''imageData'', JStr ''AAAA'')]) =
   (Inr \<lparr>status = 500, body = JObj [(''response'', JStr chat_error_msg)]\<rparr>,
    [LogUnhandled IndexError])"
  using malformed_image_data_is_500 [of "[(''message'', JStr ''diagnose''), (''imageData'', JStr ''AAAA'')]"
      "''AAAA''" "fails_then 0 (candidates_response (JStr ''Leaf rust.''))"]
  by simp

text \<open>
  C10, as amended. The loop never runs out of indices, so the return of line 51 is never
  executed: every run ends inside the loop, by a return or by an exception that leaves
  the function. The function's result is the string of line 51 only when a response of
  the service carries that very string as its text.
\<close>

theorem post_loop_return_unreachable:
  "fst (retry_loop svc payload [0..<max_retries]) \<noteq> Continue
   \<and> (fst (call_gemini_api svc payload) = Inr (JStr unavailable_msg) \<longrightarrow>
        (\<exists>i b. i < max_retries \<and> svc payload i = Body b
               \<and> has_candidates b = Inr True
               \<and> extract_text b = Inr (JStr unavailable_msg)))"
proof
  show nf: "fst (retry_loop svc payload [0..<max_retries]) \<noteq> Continue"
    by (rule retry_loop_never_falls_through)
  show "fst (call_gemini_api svc payload) = Inr (JStr unavailable_msg) \<longrightarrow>
        (\<exists>i b. i < max_retries \<and> svc payload i = Body b
               \<and> has_candidates b = Inr True
               \<and> extract_text b = Inr (JStr unavailable_msg))"
  proof
    assume res: "fst (call_gemini_api svc payload) = Inr (JStr unavailable_msg)"
    with nf have "fst (retry_loop svc payload [0..<max_retries]) = Return (JStr unavailable_msg)"
      by (cases "retry_loop svc payload [0..<max_retries]")
         (auto simp: call_gemini_api_def split: step.splits)
    from retry_loop_returns [OF this] fallbacks_distinct
    obtain i b where ib: "i < max_retries" "svc payload i = Body b"
        "parse_response b = Inr (JStr unavailable_msg)"
      by (auto simp del: upt_rec_numeral)
    from parse_response_text [OF ib(3)] fallbacks_distinct(3)
    have "has_candidates b = Inr True \<and> extract_text b = Inr (JStr unavailable_msg)"
      by simp
    with ib(1,2) show "\<exists>i b. i < max_retries \<and> svc payload i = Body b
               \<and> has_candidates b = Inr True
               \<and> extract_text b = Inr (JStr unavailable_msg)"
      by blast
  qed
qed

theorem post_loop_return_unreachable_witness:
  "fst (call_gemini_api (fails_then 1 (candidates_response (JStr unavailable_msg))) JNull) =
     Inr (JStr unavailable_msg)
   \<and> (\<exists>i b. i < max_retries
         \<and> fails_then 1 (candidates_response (JStr unavailable_msg)) JNull i = Body b
         \<and> has_candidates b = Inr True
         \<and> extract_text b = Inr (JStr unavailable_msg))"
proof -
  have "fst (call_gemini_api (fails_then 1 (candidates_response (JStr unavailable_msg))) JNull) =
     Inr (JStr unavailable_msg)"
    by (simp add: call_gemini_api_def max_retries_def range_five attempt_def fails_then_def
      candidates_response_def parse_response_def has_candidates_def extract_text_def and_then_def)
  with post_loop_return_unreachable
    [of "fails_then 1 (candidates_response (JStr unavailable_msg))" JNull]
  show ?thesis by blast
qed

text \<open>
  C10 as stated fails: the string of line 51 is the function's result when the service
  answers with it.
\<close>

theorem unavailable_text_counterexample:
  "fst (call_gemini_api (fails_then 0 (candidates_response (JStr unavailable_msg))) JNull) =
     Inr (JStr unavailable_msg)"
  by (simp add: call_gemini_api_def range_max_retries attempt_def fails_then_def
      candidates_response_def parse_response_def has_candidates_def extract_text_def and_then_def)

end
